theory Spec2Isabelle
  imports Complex_Main
begin

section \<open>Values exchanged with the client\<close>

text \<open>
  \<^verbatim>\<open>request.json\<close> is the parsed body: a Python value built from dicts, lists,
  strings, numbers, booleans and \<^verbatim>\<open>None\<close>. A dict is kept as an association list
  read with \<open>map_of\<close>. \<open>JFloat x\<close> stands for the Python float of value
  \<open>x\<close>; the JSON standard has neither infinities nor NaN.
\<close>

datatype json =
    JNull
  | JBool bool
  | JInt int
  | JFloat rat
  | JStr string
  | JArr "json list"
  | JObj "(string \<times> json) list"

datatype py_error =
    KeyError string
  | TypeError
  | InvalidRequestError
  | DatabaseError

text \<open>\<^verbatim>\<open>data[key]\<close>: a missing key raises KeyError, a value that is no dict raises TypeError.\<close>

fun getitem :: "json \<Rightarrow> string \<Rightarrow> py_error + json" where
  "getitem (JObj kvs) k = (case map_of kvs k of None \<Rightarrow> Inl (KeyError k) | Some v \<Rightarrow> Inr v)"
| "getitem _ k = Inl TypeError"

text \<open>
  A response is what \<^verbatim>\<open>jsonify\<close> returns, with its status (200 unless the view
  gives another), or an answer of the framework's router when no view runs
  (unknown path, method not allowed).
\<close>

datatype response =
    Reply nat json
  | RouterReply nat

section \<open>Models and tables\<close>

text \<open>
  An object of a model class has the attributes of its columns; each may be
  \<^verbatim>\<open>None\<close> (\<open>None\<close> for the id, \<open>JNull\<close> for the others). A freshly
  constructed object has no id until the engine assigns one on insert.
\<close>

record PointData =
  point_id :: "int option"
  point_name :: json
  latitude :: json
  longitude :: json

record PolygonData =
  polygon_id :: "int option"
  polygon_name :: json
  coordinates :: json

text \<open>A table holds its rows and the counter of its auto-incremented primary key.\<close>

record 'r table =
  rows :: "'r list"
  auto_increment :: int

record database =
  point_data :: "PointData table"
  polygon_data :: "PolygonData table"

definition empty_table :: "'r table" where
  "empty_table = \<lparr>rows = [], auto_increment = 1\<rparr>"

definition empty_database :: database where
  "empty_database = \<lparr>point_data = empty_table, polygon_data = empty_table\<rparr>"

text \<open>
  The declared columns: \<^verbatim>\<open>String(100)\<close>, \<^verbatim>\<open>Float\<close> and \<^verbatim>\<open>Text\<close>, each with
  \<^verbatim>\<open>nullable=False\<close>. A string column takes a string (of at most 100
  characters for the name); a value of another type is refused like \<^verbatim>\<open>NULL\<close>,
  the engine's conversion of a number to a string is not modelled.
\<close>

fun String_column :: "nat \<Rightarrow> json \<Rightarrow> bool" where
  "String_column n (JStr s) = (length s \<le> n)"
| "String_column n _ = False"

fun Text_column :: "json \<Rightarrow> bool" where
  "Text_column (JStr s) = True"
| "Text_column _ = False"

text \<open>
  A \<^verbatim>\<open>Float\<close> column holds Python floats: the value bound to it is converted
  as \<^verbatim>\<open>float(value)\<close> converts it. A float stays as it is; its magnitude is
  below \<open>2 ^ 1024\<close>, and \<open>JFloat x\<close> with a larger \<open>x\<close> is no float. An
  integer becomes the nearest float, a tie going to the even mantissa of 53
  bits, and the conversion raises when the result is beyond the largest float.
  A boolean becomes 1.0 or 0.0. \<^verbatim>\<open>None\<close>, a list and a dict are refused; so is
  a string, the conversion of a string that spells a number is not modelled.
\<close>

fun bit_length :: "nat \<Rightarrow> nat" where
  "bit_length n = (if n = 0 then 0 else Suc (bit_length (n div 2)))"

declare bit_length.simps [simp del]

definition round_half_even :: "nat \<Rightarrow> nat \<Rightarrow> nat" where
  "round_half_even a e =
     (let q = a div 2 ^ e; r = a mod 2 ^ e
      in if 2 ^ e < 2 * r \<or> (2 * r = 2 ^ e \<and> odd q) then q + 1 else q)"

definition float_limit :: nat where
  "float_limit = 2 ^ 1024"

definition int_to_float :: "int \<Rightarrow> rat option" where
  "int_to_float i =
     (let a = nat \<bar>i\<bar>;
          e = bit_length a - 53;
          v = round_half_even a e * 2 ^ e
      in if float_limit \<le> v then None else Some (of_int (sgn i * int v)))"

fun to_float :: "json \<Rightarrow> json option" where
  "to_float (JFloat x) = (if \<bar>x\<bar> < of_nat float_limit then Some (JFloat x) else None)"
| "to_float (JInt i) = map_option JFloat (int_to_float i)"
| "to_float (JBool b) = Some (JFloat (if b then 1 else 0))"
| "to_float _ = None"

text \<open>What the columns make of an object when it is written, if they take it.\<close>

definition bind_point :: "PointData \<Rightarrow> PointData option" where
  "bind_point p =
     (case (to_float (latitude p), to_float (longitude p)) of
        (Some lat, Some lon) \<Rightarrow>
          if String_column 100 (point_name p)
          then Some (p\<lparr>latitude := lat, longitude := lon\<rparr>)
          else None
      | _ \<Rightarrow> None)"

definition polygon_columns :: "PolygonData \<Rightarrow> bool" where
  "polygon_columns p = (String_column 100 (polygon_name p) \<and> Text_column (coordinates p))"

section \<open>The session\<close>

text \<open>
  \<^verbatim>\<open>db.session\<close> collects the work of one request: objects added with
  \<^verbatim>\<open>session.add\<close> and loaded objects whose attributes were assigned. Nothing
  reaches the tables before \<^verbatim>\<open>session.commit()\<close>; the session is dropped when
  the request ends.
\<close>

record session =
  new_points :: "PointData list"
  dirty_points :: "PointData list"
  new_polygons :: "PolygonData list"
  dirty_polygons :: "PolygonData list"

definition empty_session :: session where
  "empty_session = \<lparr>new_points = [], dirty_points = [], new_polygons = [], dirty_polygons = []\<rparr>"

text \<open>
  \<^verbatim>\<open>Model.query.get(ident)\<close>. The identifier is first taken apart: a list
  stands for the values of the primary key, one for these models, so a list of
  one element stands for its element and a list of another length raises; a
  dict gives the value under the key's attribute name. A value that is itself a
  list or a dict cannot be bound.
\<close>

fun primary_key_identity :: "json \<Rightarrow> py_error + json" where
  "primary_key_identity (JArr vs) =
     (case vs of
        [JArr ws] \<Rightarrow> Inl DatabaseError
      | [JObj kvs] \<Rightarrow> Inl DatabaseError
      | [v] \<Rightarrow> Inr v
      | _ \<Rightarrow> Inl InvalidRequestError)"
| "primary_key_identity (JObj kvs) =
     (case map_of kvs ''id'' of
        None \<Rightarrow> Inl InvalidRequestError
      | Some (JArr ws) \<Rightarrow> Inl DatabaseError
      | Some (JObj kvs') \<Rightarrow> Inl DatabaseError
      | Some v \<Rightarrow> Inr v)"
| "primary_key_identity v = Inr v"

text \<open>
  The integer a scalar identifier is compared as: an integer itself, a boolean
  as 1 or 0, a float when it has an integer value, a string of decimal digits
  as the integer it spells. \<^verbatim>\<open>None\<close> matches no row; nor does any other
  string, the engine's further conversions are not modelled.
\<close>

fun decimal :: "nat \<Rightarrow> string \<Rightarrow> nat option" where
  "decimal n [] = Some n"
| "decimal n (c # cs) =
     (if 48 \<le> (of_char c :: nat) \<and> (of_char c :: nat) \<le> 57
      then decimal (10 * n + (of_char c - 48)) cs
      else None)"

fun ident_key :: "json \<Rightarrow> int option" where
  "ident_key (JInt i) = Some i"
| "ident_key (JBool b) = Some (if b then 1 else 0)"
| "ident_key (JFloat x) = (if of_int \<lfloor>x\<rfloor> = x then Some \<lfloor>x\<rfloor> else None)"
| "ident_key (JStr s) = (if s = [] then None else map_option int (decimal 0 s))"
| "ident_key _ = None"

text \<open>The row with that primary key, or \<^verbatim>\<open>None\<close>.\<close>

definition query_get :: "('r \<Rightarrow> int option) \<Rightarrow> 'r table \<Rightarrow> json \<Rightarrow> 'r option" where
  "query_get key t ident =
     (case ident_key ident of
        Some i \<Rightarrow> find (\<lambda>r. key r = Some i) (rows t)
      | None \<Rightarrow> None)"

text \<open>Assigning an attribute of a loaded object: the session holds the object once, with its current attributes.\<close>

definition set_point :: "PointData \<Rightarrow> session \<Rightarrow> session" where
  "set_point p s =
     s\<lparr>dirty_points := p # filter (\<lambda>q. point_id q \<noteq> point_id p) (dirty_points s)\<rparr>"

definition set_polygon :: "PolygonData \<Rightarrow> session \<Rightarrow> session" where
  "set_polygon p s =
     s\<lparr>dirty_polygons := p # filter (\<lambda>q. polygon_id q \<noteq> polygon_id p) (dirty_polygons s)\<rparr>"

definition add_point :: "PointData \<Rightarrow> session \<Rightarrow> session" where
  "add_point p s = s\<lparr>new_points := new_points s @ [p]\<rparr>"

definition add_polygon :: "PolygonData \<Rightarrow> session \<Rightarrow> session" where
  "add_polygon p s = s\<lparr>new_polygons := new_polygons s @ [p]\<rparr>"

text \<open>
  The flush: an UPDATE writes the object's attributes to the row with its
  primary key; an INSERT appends the object under the next value of the counter.
\<close>

definition flush_update :: "('r \<Rightarrow> int option) \<Rightarrow> 'r table \<Rightarrow> 'r \<Rightarrow> 'r table" where
  "flush_update key t obj = t\<lparr>rows := map (\<lambda>r. if key r = key obj then obj else r) (rows t)\<rparr>"

definition flush_insert :: "(int \<Rightarrow> 'r \<Rightarrow> 'r) \<Rightarrow> 'r table \<Rightarrow> 'r \<Rightarrow> 'r table" where
  "flush_insert with_id t obj =
     \<lparr>rows = rows t @ [with_id (auto_increment t) obj], auto_increment = auto_increment t + 1\<rparr>"

definition flush_table ::
  "('r \<Rightarrow> int option) \<Rightarrow> (int \<Rightarrow> 'r \<Rightarrow> 'r) \<Rightarrow> 'r list \<Rightarrow> 'r list \<Rightarrow> 'r table \<Rightarrow> 'r table" where
  "flush_table key with_id dirty new t =
     foldl (flush_insert with_id) (foldl (flush_update key) t dirty) new"

text \<open>
  \<^verbatim>\<open>db.session.commit()\<close>: all of the session's work in one transaction. A value
  the columns refuse raises, and the transaction leaves the tables as they were.
\<close>

definition commit :: "database \<Rightarrow> session \<Rightarrow> py_error + database" where
  "commit d s =
     (case (those (map bind_point (dirty_points s)), those (map bind_point (new_points s))) of
        (Some dirty, Some new) \<Rightarrow>
          if list_all polygon_columns (dirty_polygons s @ new_polygons s)
          then Inr \<lparr>point_data =
                      flush_table point_id (\<lambda>i p. p\<lparr>point_id := Some i\<rparr>)
                        dirty new (point_data d),
                    polygon_data =
                      flush_table polygon_id (\<lambda>i p. p\<lparr>polygon_id := Some i\<rparr>)
                        (dirty_polygons s) (new_polygons s) (polygon_data d)\<rparr>
          else Inl DatabaseError
      | _ \<Rightarrow> Inl DatabaseError)"

section \<open>The views\<close>

datatype http_method = GET | HEAD | POST | PUT | OtherMethod

type_synonym outcome = "(py_error + response) \<times> database \<times> session"

text \<open>
  The last two statements shared by both branches of a create-or-update view.
  A commit that raises has rolled the session back.
\<close>

definition commit_and_reply :: "string \<Rightarrow> database \<Rightarrow> session \<Rightarrow> outcome" where
  "commit_and_reply msg d s =
     (case commit d s of
        Inl e \<Rightarrow> (Inl e, d, empty_session)
      | Inr d' \<Rightarrow> (Inr (Reply 200 (JObj [(''message'', JStr msg)])), d', empty_session))"

definition not_found :: "string \<Rightarrow> response" where
  "not_found msg = Reply 404 (JObj [(''error'', JStr msg)])"

text \<open>
  \<^verbatim>\<open>handle_point\<close>. The statements run in the source's order: each
  \<^verbatim>\<open>data[...]\<close> may raise, and an assignment made before a later raise stays in
  the session, uncommitted.
\<close>

definition handle_point :: "http_method \<Rightarrow> json \<Rightarrow> database \<Rightarrow> session \<Rightarrow> outcome" where
  "handle_point method data d s =
     (if method = POST then
        (case getitem data ''name'' of Inl e \<Rightarrow> (Inl e, d, s) | Inr name \<Rightarrow>
        (case getitem data ''latitude'' of Inl e \<Rightarrow> (Inl e, d, s) | Inr lat \<Rightarrow>
        (case getitem data ''longitude'' of Inl e \<Rightarrow> (Inl e, d, s) | Inr lon \<Rightarrow>
           commit_and_reply ''Point saved successfully'' d
             (add_point \<lparr>point_id = None, point_name = name, latitude = lat, longitude = lon\<rparr> s))))
      else if method = PUT then
        (case getitem data ''id'' of Inl e \<Rightarrow> (Inl e, d, s) | Inr ident \<Rightarrow>
        (case primary_key_identity ident of Inl e \<Rightarrow> (Inl e, d, s) | Inr pk \<Rightarrow>
        (case query_get point_id (point_data d) pk of
           None \<Rightarrow> (Inr (not_found ''Point not found''), d, s)
         | Some point \<Rightarrow>
        (case getitem data ''name'' of Inl e \<Rightarrow> (Inl e, d, s) | Inr name \<Rightarrow>
        (let point1 = point\<lparr>point_name := name\<rparr>; s1 = set_point point1 s in
        (case getitem data ''latitude'' of Inl e \<Rightarrow> (Inl e, d, s1) | Inr lat \<Rightarrow>
        (let point2 = point1\<lparr>latitude := lat\<rparr>; s2 = set_point point2 s1 in
        (case getitem data ''longitude'' of Inl e \<Rightarrow> (Inl e, d, s2) | Inr lon \<Rightarrow>
        (let point3 = point2\<lparr>longitude := lon\<rparr>; s3 = set_point point3 s2 in
           commit_and_reply ''Point saved successfully'' d s3)))))))))
      else commit_and_reply ''Point saved successfully'' d s)"

definition id_json :: "int option \<Rightarrow> json" where
  "id_json i = (case i of None \<Rightarrow> JNull | Some n \<Rightarrow> JInt n)"

definition get_point :: "int \<Rightarrow> database \<Rightarrow> session \<Rightarrow> outcome" where
  "get_point ident d s =
     (case query_get point_id (point_data d) (JInt ident) of
        None \<Rightarrow> (Inr (not_found ''Point not found''), d, s)
      | Some point \<Rightarrow>
          (Inr (Reply 200 (JObj [(''id'', id_json (point_id point)),
                                 (''name'', point_name point),
                                 (''latitude'', latitude point),
                                 (''longitude'', longitude point)])), d, s))"

definition handle_polygon :: "http_method \<Rightarrow> json \<Rightarrow> database \<Rightarrow> session \<Rightarrow> outcome" where
  "handle_polygon method data d s =
     (if method = POST then
        (case getitem data ''name'' of Inl e \<Rightarrow> (Inl e, d, s) | Inr name \<Rightarrow>
        (case getitem data ''coordinates'' of Inl e \<Rightarrow> (Inl e, d, s) | Inr coords \<Rightarrow>
           commit_and_reply ''Polygon saved successfully'' d
             (add_polygon \<lparr>polygon_id = None, polygon_name = name, coordinates = coords\<rparr> s)))
      else if method = PUT then
        (case getitem data ''id'' of Inl e \<Rightarrow> (Inl e, d, s) | Inr ident \<Rightarrow>
        (case primary_key_identity ident of Inl e \<Rightarrow> (Inl e, d, s) | Inr pk \<Rightarrow>
        (case query_get polygon_id (polygon_data d) pk of
           None \<Rightarrow> (Inr (not_found ''Polygon not found''), d, s)
         | Some polygon \<Rightarrow>
        (case getitem data ''name'' of Inl e \<Rightarrow> (Inl e, d, s) | Inr name \<Rightarrow>
        (let polygon1 = polygon\<lparr>polygon_name := name\<rparr>; s1 = set_polygon polygon1 s in
        (case getitem data ''coordinates'' of Inl e \<Rightarrow> (Inl e, d, s1) | Inr coords \<Rightarrow>
        (let polygon2 = polygon1\<lparr>coordinates := coords\<rparr>; s2 = set_polygon polygon2 s1 in
           commit_and_reply ''Polygon saved successfully'' d s2)))))))
      else commit_and_reply ''Polygon saved successfully'' d s)"

definition get_polygon :: "int \<Rightarrow> database \<Rightarrow> session \<Rightarrow> outcome" where
  "get_polygon ident d s =
     (case query_get polygon_id (polygon_data d) (JInt ident) of
        None \<Rightarrow> (Inr (not_found ''Polygon not found''), d, s)
      | Some polygon \<Rightarrow>
          (Inr (Reply 200 (JObj [(''id'', id_json (polygon_id polygon)),
                                 (''name'', polygon_name polygon),
                                 (''coordinates'', coordinates polygon)])), d, s))"

section \<open>The application\<close>

text \<open>
  The process keeps the global flag and the database connection. The calls of
  \<^verbatim>\<open>db.create_all()\<close> are counted; it creates the tables that are absent and
  touches no row.
\<close>

record app =
  tables_initialized :: bool
  create_all_calls :: nat
  db :: database

definition initial_app :: app where
  "initial_app = \<lparr>tables_initialized = False, create_all_calls = 0, db = empty_database\<rparr>"

definition create_tables :: "app \<Rightarrow> app" where
  "create_tables a =
     (if \<not> tables_initialized a
      then a\<lparr>create_all_calls := create_all_calls a + 1, tables_initialized := True\<rparr>
      else a)"

text \<open>
  The routes: \<^verbatim>\<open>/point\<close> and \<^verbatim>\<open>/polygon\<close> for POST and PUT,
  \<^verbatim>\<open>/point/<int:point_id>\<close> and \<^verbatim>\<open>/polygon/<int:polygon_id>\<close> for GET (and
  HEAD, which the framework adds to a GET route).
\<close>

datatype url = Url_point | Url_point_id nat | Url_polygon | Url_polygon_id nat | Url_other

record request =
  req_method :: http_method
  req_url :: url
  req_json :: json

definition dispatch :: "request \<Rightarrow> database \<Rightarrow> session \<Rightarrow> outcome" where
  "dispatch r d s =
     (case req_url r of
        Url_point \<Rightarrow>
          if req_method r = POST \<or> req_method r = PUT
          then handle_point (req_method r) (req_json r) d s
          else (Inr (RouterReply 405), d, s)
      | Url_point_id i \<Rightarrow>
          if req_method r = GET \<or> req_method r = HEAD
          then get_point (int i) d s
          else (Inr (RouterReply 405), d, s)
      | Url_polygon \<Rightarrow>
          if req_method r = POST \<or> req_method r = PUT
          then handle_polygon (req_method r) (req_json r) d s
          else (Inr (RouterReply 405), d, s)
      | Url_polygon_id i \<Rightarrow>
          if req_method r = GET \<or> req_method r = HEAD
          then get_polygon (int i) d s
          else (Inr (RouterReply 405), d, s)
      | Url_other \<Rightarrow> (Inr (RouterReply 404), d, s))"

text \<open>
  One request: the \<^verbatim>\<open>before_request\<close> hook, then the view on a fresh session.
  What the view committed stays; the session, with anything uncommitted, is
  dropped. An exception leaves the view unhandled (\<open>Inl\<close>).
\<close>

definition handle_request :: "request \<Rightarrow> app \<Rightarrow> (py_error + response) \<times> app" where
  "handle_request r a =
     (let a1 = create_tables a;
          (res, d, s) = dispatch r (db a1) empty_session
      in (res, a1\<lparr>db := d\<rparr>))"

fun run :: "request list \<Rightarrow> app \<Rightarrow> app" where
  "run [] a = a"
| "run (r # rs) a = run rs (snd (handle_request r a))"

section \<open>Well-formed tables\<close>





text \<open>A row is populated when none of its four attributes is \<^verbatim>\<open>None\<close>.\<close>

definition populated :: "PointData \<Rightarrow> bool" where
  "populated p =
     (point_id p \<noteq> None \<and> point_name p \<noteq> JNull \<and> latitude p \<noteq> JNull \<and> longitude p \<noteq> JNull)"

definition columns_filled :: "PointData \<Rightarrow> bool" where
  "columns_filled p = (point_name p \<noteq> JNull \<and> latitude p \<noteq> JNull \<and> longitude p \<noteq> JNull)"

section \<open>A database and bodies to evaluate the views on\<close>

definition example_database :: database where
  "example_database =
     \<lparr>point_data =
        \<lparr>rows = [\<lparr>point_id = Some 1, point_name = JStr ''A'',
                  latitude = JFloat 1, longitude = JFloat 2\<rparr>],
         auto_increment = 2\<rparr>,
      polygon_data =
        \<lparr>rows = [\<lparr>polygon_id = Some 1, polygon_name = JStr ''P'',
                  coordinates = JStr ''[[[0, 0], [1, 0], [1, 1]]]''\<rparr>],
         auto_increment = 2\<rparr>\<rparr>"

definition point_body :: "int \<Rightarrow> json" where
  "point_body i =
     JObj [(''id'', JInt i), (''name'', JStr ''x''), (''latitude'', JInt 0), (''longitude'', JInt 0)]"




definition example_app :: app where
  "example_app = \<lparr>tables_initialized = True, create_all_calls = 1, db = example_database\<rparr>"

definition partial_point_body :: json where
  "partial_point_body = JObj [(''id'', JInt 1), (''name'', JStr ''x'')]"

definition null_point_body :: json where
  "null_point_body =
     JObj [(''id'', JInt 1), (''name'', JStr ''x''), (''latitude'', JNull), (''longitude'', JInt 0)]"





definition any_request :: request where
  "any_request = \<lparr>req_method = OtherMethod, req_url = Url_other, req_json = JNull\<rparr>"

section \<open>Lemmas about the conversion to a float\<close>



lemma round_half_even_0 [simp]: "round_half_even a 0 = a"
  by (simp add: round_half_even_def)




lemma to_float_JFloat: "to_float v = Some w \<Longrightarrow> \<exists>x. w = JFloat x"
  by (cases v) (auto split: if_splits)







lemma bind_point_Some:
  assumes "bind_point p = Some q"
  shows "point_id q = point_id p \<and> point_name q = point_name p \<and>
         String_column 100 (point_name p) \<and>
         to_float (latitude p) = Some (latitude q) \<and> to_float (longitude p) = Some (longitude q)"
  using assms by (auto simp: bind_point_def split: option.splits if_splits)

lemma bind_point_accepts:
  assumes "String_column 100 (point_name p)"
    and "to_float (latitude p) = Some lat" and "to_float (longitude p) = Some lon"
  shows "bind_point p = Some (p\<lparr>latitude := lat, longitude := lon\<rparr>)"
  using assms by (simp add: bind_point_def)

lemma those_bind_point_keys:
  "those (map bind_point ps) = Some qs \<Longrightarrow> map point_id qs = map point_id ps"
proof (induction ps arbitrary: qs)
  case Nil
  then show ?case by simp
next
  case (Cons p ps)
  then show ?case
    by (auto split: option.splits dest: bind_point_Some)
qed

section \<open>Lemmas about the session and the flush\<close>

lemma flush_table_empty [simp]: "flush_table key with_id [] [] t = t"
  by (simp add: flush_table_def)

lemma commit_empty_session [simp]: "commit d empty_session = Inr d"
  by (simp add: commit_def empty_session_def)

lemma commit_Inr:
  assumes "commit d s = Inr d'"
  shows "\<exists>dirty new.
           those (map bind_point (dirty_points s)) = Some dirty \<and>
           those (map bind_point (new_points s)) = Some new \<and>
           point_data d' =
             flush_table point_id (\<lambda>i p. p\<lparr>point_id := Some i\<rparr>) dirty new (point_data d) \<and>
           polygon_data d' =
             flush_table polygon_id (\<lambda>i p. p\<lparr>polygon_id := Some i\<rparr>)
               (dirty_polygons s) (new_polygons s) (polygon_data d)"
  using assms by (auto simp: commit_def split: option.splits if_splits)

lemma query_get_absent:
  "Some i \<notin> key ` set (rows t) \<Longrightarrow> query_get key t (JInt i) = None"
  by (force simp: query_get_def find_None_iff image_iff)


lemma query_get_Some:
  "query_get key t ident = Some r \<Longrightarrow>
     \<exists>i. ident_key ident = Some i \<and> key r = Some i \<and> r \<in> set (rows t)"
  unfolding query_get_def
  by (cases "ident_key ident") (auto simp: find_Some_iff)

subsection \<open>flush\<close>















subsection \<open>what a view leaves in the database\<close>

lemma commit_and_reply_cases:
  "commit_and_reply msg d s = (res, d', s') \<Longrightarrow>
     (d' = d \<and> (\<exists>e. res = Inl e)) \<or> (commit d s = Inr d' \<and> (\<exists>y. res = Inr y))"
  by (auto simp: commit_and_reply_def split: sum.splits)

lemma handle_point_cases:
  "handle_point method data d s = (res, d', s') \<Longrightarrow>
     d' = d \<or> (\<exists>s1 y. commit d s1 = Inr d' \<and> res = Inr y)"
  unfolding handle_point_def Let_def
  by (auto split: if_splits sum.splits option.splits dest!: commit_and_reply_cases)

lemma handle_polygon_cases:
  "handle_polygon method data d s = (res, d', s') \<Longrightarrow>
     d' = d \<or> (\<exists>s1 y. commit d s1 = Inr d' \<and> res = Inr y)"
  unfolding handle_polygon_def Let_def
  by (auto split: if_splits sum.splits option.splits dest!: commit_and_reply_cases)

lemma get_point_db: "get_point i d s = (res, d', s') \<Longrightarrow> d' = d \<and> (\<exists>y. res = Inr y)"
  by (auto simp: get_point_def split: option.splits)

lemma get_polygon_db: "get_polygon i d s = (res, d', s') \<Longrightarrow> d' = d \<and> (\<exists>y. res = Inr y)"
  by (auto simp: get_polygon_def split: option.splits)

lemma dispatch_cases:
  "dispatch r d s = (res, d', s') \<Longrightarrow>
     d' = d \<or> (\<exists>s1 y. commit d s1 = Inr d' \<and> res = Inr y)"
  unfolding dispatch_def
  by (auto split: url.splits if_splits
      dest: handle_point_cases handle_polygon_cases get_point_db get_polygon_db)

lemma handle_request_db:
  "db (snd (handle_request r a)) = fst (snd (dispatch r (db a) empty_session))"
  by (simp add: handle_request_def create_tables_def Let_def split: prod.splits)

lemma handle_request_res:
  "fst (handle_request r a) = fst (dispatch r (db a) empty_session)"
  by (simp add: handle_request_def create_tables_def Let_def split: prod.splits)

lemma handle_request_cases:
  "db (snd (handle_request r a)) = db a \<or>
   (\<exists>s1 y. commit (db a) s1 = Inr (db (snd (handle_request r a))) \<and> fst (handle_request r a) = Inr y)"
  using dispatch_cases [of r "db a" empty_session "fst (dispatch r (db a) empty_session)"
      "fst (snd (dispatch r (db a) empty_session))" "snd (snd (dispatch r (db a) empty_session))"]
  by (simp add: handle_request_db handle_request_res)








subsection \<open>one assignment sequence, one UPDATE\<close>








subsection \<open>one added object, one INSERT\<close>













subsection \<open>reading back\<close>





subsection \<open>the update branch\<close>





subsection \<open>the flag\<close>

lemma handle_request_flag: "tables_initialized (snd (handle_request r a))"
  by (simp add: handle_request_def create_tables_def Let_def split: prod.splits)

lemma handle_request_calls:
  "create_all_calls (snd (handle_request r a)) =
     (if tables_initialized a then create_all_calls a else create_all_calls a + 1)"
  by (simp add: handle_request_def create_tables_def Let_def split: prod.splits)

lemma run_initialized:
  "tables_initialized a \<Longrightarrow>
     tables_initialized (run rs a) \<and> create_all_calls (run rs a) = create_all_calls a"
  by (induction rs arbitrary: a) (simp_all add: handle_request_flag handle_request_calls)

lemma run_initial_app:
  "create_all_calls (run rs initial_app) = (if rs = [] then 0 else 1) \<and>
   (tables_initialized (run rs initial_app) \<longleftrightarrow> rs \<noteq> [])"
proof (cases rs)
  case Nil
  then show ?thesis by (simp add: initial_app_def)
next
  case (Cons r rs')
  have "tables_initialized (snd (handle_request r initial_app))"
    by (rule handle_request_flag)
  from run_initialized [OF this, of rs'] show ?thesis
    by (simp add: Cons handle_request_calls initial_app_def)
qed

subsection \<open>populated rows\<close>

lemma bind_point_filled: "bind_point p = Some q \<Longrightarrow> columns_filled q"
proof -
  assume bound: "bind_point p = Some q"
  from bind_point_Some [OF bound] have name: "String_column 100 (point_name q)"
    and lat: "to_float (latitude p) = Some (latitude q)"
    and lon: "to_float (longitude p) = Some (longitude q)"
    by simp_all
  from name have "point_name q \<noteq> JNull" by auto
  moreover from to_float_JFloat [OF lat] have "latitude q \<noteq> JNull" by auto
  moreover from to_float_JFloat [OF lon] have "longitude q \<noteq> JNull" by auto
  ultimately show ?thesis by (simp add: columns_filled_def)
qed

lemma those_bind_point_filled:
  "those (map bind_point ps) = Some qs \<Longrightarrow> list_all columns_filled qs"
proof (induction ps arbitrary: qs)
  case Nil
  then show ?case by simp
next
  case (Cons p ps)
  then show ?case
    by (auto split: option.splits dest: bind_point_filled)
qed

lemma populated_flush_update:
  assumes "list_all populated (rows t)" and "columns_filled obj"
  shows "list_all populated (rows (flush_update point_id t obj))"
proof -
  from assms(2) have cols: "point_name obj \<noteq> JNull" "latitude obj \<noteq> JNull" "longitude obj \<noteq> JNull"
    by (simp_all add: columns_filled_def)
  have "populated obj" if "r \<in> set (rows t)" "point_id r = point_id obj" for r
  proof -
    from assms(1) that(1) have "populated r" by (simp add: list_all_iff)
    with that(2) have "point_id obj \<noteq> None" by (simp add: populated_def)
    with cols show ?thesis by (simp add: populated_def)
  qed
  with assms(1) show ?thesis
    by (auto simp: flush_update_def list_all_iff)
qed

lemma populated_flush_updates:
  "list_all populated (rows t) \<Longrightarrow> list_all columns_filled dirty \<Longrightarrow>
     list_all populated (rows (foldl (flush_update point_id) t dirty))"
  by (induction dirty arbitrary: t) (simp_all add: populated_flush_update)

lemma populated_flush_insert:
  assumes "list_all populated (rows t)" and "columns_filled obj"
  shows "list_all populated (rows (flush_insert (\<lambda>i p. p\<lparr>point_id := Some i\<rparr>) t obj))"
  using assms by (simp add: flush_insert_def populated_def columns_filled_def)

lemma populated_flush_inserts:
  "list_all populated (rows t) \<Longrightarrow> list_all columns_filled new \<Longrightarrow>
     list_all populated (rows (foldl (flush_insert (\<lambda>i p. p\<lparr>point_id := Some i\<rparr>)) t new))"
  by (induction new arbitrary: t) (simp_all add: populated_flush_insert)

lemma populated_commit:
  assumes "commit d s = Inr d'" and "list_all populated (rows (point_data d))"
  shows "list_all populated (rows (point_data d'))"
proof -
  from commit_Inr [OF assms(1)] obtain dirty new
    where bound: "those (map bind_point (dirty_points s)) = Some dirty"
      "those (map bind_point (new_points s)) = Some new"
    and d': "point_data d' =
      flush_table point_id (\<lambda>i p. p\<lparr>point_id := Some i\<rparr>) dirty new (point_data d)"
    by blast
  from bound have cols: "list_all columns_filled dirty" "list_all columns_filled new"
    by (simp_all add: those_bind_point_filled)
  from assms(2) cols(1) have "list_all populated (rows (foldl (flush_update point_id) (point_data d) dirty))"
    by (rule populated_flush_updates)
  then show ?thesis
    unfolding d' flush_table_def using cols(2) by (rule populated_flush_inserts)
qed

lemma populated_handle_request:
  assumes "list_all populated (rows (point_data (db a)))"
  shows "list_all populated (rows (point_data (db (snd (handle_request r a)))))"
  using handle_request_cases [of r a]
proof (elim disjE exE conjE)
  assume "db (snd (handle_request r a)) = db a"
  with assms show ?thesis by simp
next
  fix s1 y
  assume "commit (db a) s1 = Inr (db (snd (handle_request r a)))"
  then show ?thesis using assms by (rule populated_commit)
qed

lemma populated_run:
  "list_all populated (rows (point_data (db a))) \<Longrightarrow>
     list_all populated (rows (point_data (db (run rs a))))"
  by (induction rs arbitrary: a) (simp_all add: populated_handle_request)

lemma handle_point_raise:
  "handle_point method data d s = (Inl e, d', s') \<Longrightarrow> d' = d"
  by (auto dest: handle_point_cases)

lemma handle_request_raise:
  "fst (handle_request r a) = Inl e \<Longrightarrow> db (snd (handle_request r a)) = db a"
  using handle_request_cases [of r a] by auto

section \<open>Update-or-404 and read-miss\<close>

text \<open>
  C1. When no row of the table has the id, a PUT whose body carries that id
  answers 404 with \<^verbatim>\<open>{"error": "Point not found"}\<close> (\<^verbatim>\<open>"Polygon not found"\<close> for
  a polygon) and a GET on that id answers the same; in both cases the view
  returns the database and the session as it received them.
\<close>

theorem missing_id_not_found:
  "(Some i \<notin> point_id ` set (rows (point_data d)) \<longrightarrow>
      (getitem data ''id'' = Inr (JInt i) \<longrightarrow>
         handle_point PUT data d s =
           (Inr (Reply 404 (JObj [(''error'', JStr ''Point not found'')])), d, s)) \<and>
      get_point i d s = (Inr (Reply 404 (JObj [(''error'', JStr ''Point not found'')])), d, s)) \<and>
   (Some i \<notin> polygon_id ` set (rows (polygon_data d)) \<longrightarrow>
      (getitem data ''id'' = Inr (JInt i) \<longrightarrow>
         handle_polygon PUT data d s =
           (Inr (Reply 404 (JObj [(''error'', JStr ''Polygon not found'')])), d, s)) \<and>
      get_polygon i d s = (Inr (Reply 404 (JObj [(''error'', JStr ''Polygon not found'')])), d, s))"
  by (simp add: handle_point_def handle_polygon_def get_point_def get_polygon_def
      query_get_absent not_found_def)

theorem missing_id_not_found_witness:
  "handle_point PUT (point_body 999) example_database empty_session =
     (Inr (Reply 404 (JObj [(''error'', JStr ''Point not found'')])), example_database, empty_session) \<and>
   get_point 999 example_database empty_session =
     (Inr (Reply 404 (JObj [(''error'', JStr ''Point not found'')])), example_database, empty_session) \<and>
   handle_polygon PUT (point_body 999) example_database empty_session =
     (Inr (Reply 404 (JObj [(''error'', JStr ''Polygon not found'')])), example_database, empty_session) \<and>
   get_polygon 999 example_database empty_session =
     (Inr (Reply 404 (JObj [(''error'', JStr ''Polygon not found'')])), example_database, empty_session)"
  using missing_id_not_found [of 999 example_database "point_body 999" empty_session]
  by (simp add: example_database_def point_body_def)




section \<open>Create\<close>







section \<open>Opaque coordinates\<close>




section \<open>Lazy creation of the tables\<close>

text \<open>
  C6. In a sequential run from the start of the process, \<^verbatim>\<open>db.create_all()\<close> has
  been called exactly once as soon as one request, of any method and to any
  path, has been handled, and the flag is then set. A request that finds the
  flag unset calls it once and sets the flag; a request that finds the flag set
  leaves it set and does not call it, and so does every run of requests after
  it.
\<close>

theorem tables_created_once:
  "create_all_calls (run rs initial_app) = (if rs = [] then 0 else 1) \<and>
   (tables_initialized (run rs initial_app) \<longleftrightarrow> rs \<noteq> []) \<and>
   (\<not> tables_initialized a \<longrightarrow>
      tables_initialized (snd (handle_request r a)) \<and>
      create_all_calls (snd (handle_request r a)) = create_all_calls a + 1) \<and>
   (tables_initialized a \<longrightarrow>
      tables_initialized (snd (handle_request r a)) \<and>
      create_all_calls (snd (handle_request r a)) = create_all_calls a \<and>
      tables_initialized (run rs a) \<and>
      create_all_calls (run rs a) = create_all_calls a)"
  using run_initial_app [of rs] run_initialized [of a rs]
  by (simp add: handle_request_flag handle_request_calls)

theorem tables_created_once_witness:
  "create_all_calls (run [any_request, any_request, any_request] initial_app) = 1 \<and>
   tables_initialized (run [any_request, any_request, any_request] initial_app) \<and>
   create_all_calls (snd (handle_request any_request initial_app)) = 1 \<and>
   create_all_calls (snd (handle_request any_request example_app)) = 1 \<and>
   create_all_calls (run [any_request, any_request, any_request] example_app) = 1"
  using tables_created_once [of "[any_request, any_request, any_request]" initial_app any_request]
    tables_created_once [of "[any_request, any_request, any_request]" example_app any_request]
  by (simp add: initial_app_def example_app_def)

section \<open>No partial row\<close>

text \<open>
  C8. Every row of the point table has its four attributes populated, in every
  state the application reaches from its start, and every request keeps it so.
  A PUT that raises (a missing key, a value the columns refuse) returns the
  database as it received it, whatever it had assigned before raising, and a
  request that raises leaves the database of the application unchanged.
\<close>

theorem no_partial_point_row:
  "list_all populated (rows (point_data (db (run rs initial_app)))) \<and>
   (list_all populated (rows (point_data (db a))) \<longrightarrow>
      list_all populated (rows (point_data (db (snd (handle_request r a)))))) \<and>
   (\<forall>e d' s'. handle_point PUT data d s = (Inl e, d', s') \<longrightarrow> d' = d) \<and>
   (\<forall>e. fst (handle_request r a) = Inl e \<longrightarrow> db (snd (handle_request r a)) = db a)"
proof (intro conjI allI impI)
  have "list_all populated (rows (point_data (db initial_app)))"
    by (simp add: initial_app_def empty_database_def empty_table_def)
  then show "list_all populated (rows (point_data (db (run rs initial_app))))"
    by (rule populated_run)
qed (auto intro: populated_handle_request dest: handle_point_raise handle_request_raise)

theorem no_partial_point_row_witness:
  "handle_point PUT partial_point_body example_database empty_session =
     (Inl (KeyError ''latitude''), example_database,
      empty_session\<lparr>dirty_points :=
        [\<lparr>point_id = Some 1, point_name = JStr ''x'', latitude = JFloat 1, longitude = JFloat 2\<rparr>]\<rparr>) \<and>
   handle_point PUT null_point_body example_database empty_session =
     (Inl DatabaseError, example_database, empty_session) \<and>
   db (snd (handle_request
     \<lparr>req_method = PUT, req_url = Url_point, req_json = partial_point_body\<rparr> example_app)) =
     example_database \<and>
   list_all populated (rows (point_data example_database))"
proof -
  have partial: "handle_point PUT partial_point_body example_database empty_session =
     (Inl (KeyError ''latitude''), example_database,
      empty_session\<lparr>dirty_points :=
        [\<lparr>point_id = Some 1, point_name = JStr ''x'', latitude = JFloat 1, longitude = JFloat 2\<rparr>]\<rparr>)"
    by (simp add: handle_point_def partial_point_body_def example_database_def query_get_def
        set_point_def empty_session_def)
  have null: "handle_point PUT null_point_body example_database empty_session =
     (Inl DatabaseError, example_database, empty_session)"
    by (simp add: handle_point_def null_point_body_def example_database_def query_get_def
        set_point_def empty_session_def commit_and_reply_def commit_def bind_point_def)
  have raised: "fst (handle_request
      \<lparr>req_method = PUT, req_url = Url_point, req_json = partial_point_body\<rparr> example_app) =
      Inl (KeyError ''latitude'')"
    by (simp add: handle_request_res dispatch_def example_app_def partial)
  have rows: "list_all populated (rows (point_data (db example_app)))"
    by (simp add: example_app_def example_database_def populated_def)
  from no_partial_point_row [of "[]" example_app
      "\<lparr>req_method = PUT, req_url = Url_point, req_json = partial_point_body\<rparr>"
      partial_point_body example_database empty_session]
    partial null raised rows
  show ?thesis
    by (simp add: example_app_def)
qed

section \<open>Missing fields\<close>

text \<open>
  C9. A POST whose body is an object without one of the required keys raises
  \<^verbatim>\<open>KeyError\<close> for the first missing key: the view gives no reply (no 400), it
  returns the database and the session as it received them, and the request
  leaves the database of the application unchanged.
\<close>

theorem post_missing_field_raises:
  "(map_of kvs ''name'' = None \<or> map_of kvs ''latitude'' = None \<or> map_of kvs ''longitude'' = None \<longrightarrow>
      (\<exists>k. k \<in> {''name'', ''latitude'', ''longitude''} \<and> map_of kvs k = None \<and>
           handle_point POST (JObj kvs) d s = (Inl (KeyError k), d, s) \<and>
           fst (handle_request \<lparr>req_method = POST, req_url = Url_point, req_json = JObj kvs\<rparr> a) =
             Inl (KeyError k) \<and>
           db (snd (handle_request \<lparr>req_method = POST, req_url = Url_point, req_json = JObj kvs\<rparr> a)) =
             db a)) \<and>
   (map_of kvs ''name'' = None \<or> map_of kvs ''coordinates'' = None \<longrightarrow>
      (\<exists>k. k \<in> {''name'', ''coordinates''} \<and> map_of kvs k = None \<and>
           handle_polygon POST (JObj kvs) d s = (Inl (KeyError k), d, s) \<and>
           fst (handle_request \<lparr>req_method = POST, req_url = Url_polygon, req_json = JObj kvs\<rparr> a) =
             Inl (KeyError k) \<and>
           db (snd (handle_request \<lparr>req_method = POST, req_url = Url_polygon, req_json = JObj kvs\<rparr> a)) =
             db a))"
proof (intro conjI impI)
  assume missing: "map_of kvs ''name'' = None \<or> map_of kvs ''latitude'' = None \<or>
      map_of kvs ''longitude'' = None"
  define k where "k =
     (if map_of kvs ''name'' = None then ''name''
      else if map_of kvs ''latitude'' = None then ''latitude'' else ''longitude'')"
  have view: "handle_point POST (JObj kvs) d s = (Inl (KeyError k), d, s)" for d s
    using missing by (auto simp: handle_point_def k_def split: option.splits)
  have "k \<in> {''name'', ''latitude'', ''longitude''}" "map_of kvs k = None"
    using missing by (auto simp: k_def)
  then show "\<exists>k. k \<in> {''name'', ''latitude'', ''longitude''} \<and> map_of kvs k = None \<and>
           handle_point POST (JObj kvs) d s = (Inl (KeyError k), d, s) \<and>
           fst (handle_request \<lparr>req_method = POST, req_url = Url_point, req_json = JObj kvs\<rparr> a) =
             Inl (KeyError k) \<and>
           db (snd (handle_request \<lparr>req_method = POST, req_url = Url_point, req_json = JObj kvs\<rparr> a)) =
             db a"
    by (intro exI [of _ k]) (simp add: view handle_request_res handle_request_db dispatch_def)
next
  assume missing: "map_of kvs ''name'' = None \<or> map_of kvs ''coordinates'' = None"
  define k where "k = (if map_of kvs ''name'' = None then ''name'' else ''coordinates'')"
  have view: "handle_polygon POST (JObj kvs) d s = (Inl (KeyError k), d, s)" for d s
    using missing by (auto simp: handle_polygon_def k_def split: option.splits)
  have "k \<in> {''name'', ''coordinates''}" "map_of kvs k = None"
    using missing by (auto simp: k_def)
  then show "\<exists>k. k \<in> {''name'', ''coordinates''} \<and> map_of kvs k = None \<and>
           handle_polygon POST (JObj kvs) d s = (Inl (KeyError k), d, s) \<and>
           fst (handle_request \<lparr>req_method = POST, req_url = Url_polygon, req_json = JObj kvs\<rparr> a) =
             Inl (KeyError k) \<and>
           db (snd (handle_request \<lparr>req_method = POST, req_url = Url_polygon, req_json = JObj kvs\<rparr> a)) =
             db a"
    by (intro exI [of _ k]) (simp add: view handle_request_res handle_request_db dispatch_def)
qed

theorem post_missing_field_raises_witness:
  "handle_point POST (JObj [(''name'', JStr ''A''), (''latitude'', JInt 1)])
       example_database empty_session =
     (Inl (KeyError ''longitude''), example_database, empty_session) \<and>
   handle_polygon POST (JObj [(''name'', JStr ''A''), (''latitude'', JInt 1)])
       example_database empty_session =
     (Inl (KeyError ''coordinates''), example_database, empty_session)"
  using post_missing_field_raises [of "[(''name'', JStr ''A''), (''latitude'', JInt 1)]"
      example_database empty_session example_app]
  by auto

end
